theory Spec2Isabelle
  imports Main "HOL-Library.AList" "HOL-Library.List_Lexorder" "HOL-Library.Char_ord"
begin

section \<open>Data model\<close>

text \<open>
  Python objects are mutable and are passed by reference, so every class instance lives
  in a heap: one total function per class, from addresses to the fields of the object
  at that address. An address that was never allocated holds a default object. Plain
  immutable data (strings, dictionaries that no method mutates) is kept by value.
\<close>

datatype error = ValueError | KeyError | AttributeError | DuplicateKey | TypeMismatch

text \<open>The values a serialised dictionary can hold (\<open>Any\<close> in the type annotations).\<close>

datatype pyval =
    PNone
  | PBool bool
  | PInt int
  | PStr string
  | PList "pyval list"
  | PDict "(string \<times> pyval) list"

type_synonym pydict = "(string \<times> pyval) list"

type_synonym ref = nat

text \<open>\<open>class Attribute\<close>: \<open>uid\<close>, \<open>label\<close>, \<open>value\<close>, \<open>metadata\<close>.\<close>

record attribute =
  attr_uid :: string
  attr_label :: string
  attr_value :: pyval
  attr_metadata :: pydict

text \<open>
  \<open>class Annotation\<close>: \<open>uid\<close>, \<open>label\<close>, \<open>keys\<close> (a reference to a set object, which
  the constructor may share with its caller), \<open>metadata\<close>, \<open>_attrs_by_id\<close> (a dictionary
  in insertion order, from uid to the Attribute object) and \<open>_attr_ids_by_label\<close>.
\<close>

record annotation =
  ann_uid :: string
  ann_label :: string
  ann_keys :: ref
  ann_metadata :: pydict
  attrs_by_id :: "(string \<times> ref) list"
  attr_ids_by_label :: "string \<rightharpoonup> string list"

text \<open>\<open>class Document\<close>; \<open>store\<close> is a reference to a Store object.\<close>

record document =
  doc_id :: string
  store :: ref
  has_shared_store :: bool
  annotation_ids :: "string set"
  annotation_ids_by_label :: "string \<rightharpoonup> string list"
  annotation_ids_by_key :: "string \<rightharpoonup> string list"
  doc_metadata :: pydict

record world =
  attributes :: "ref \<Rightarrow> attribute"
  keysets :: "ref \<Rightarrow> string set"
  annotations :: "ref \<Rightarrow> annotation"
  stores :: "ref \<Rightarrow> (string \<rightharpoonup> ref)"
  documents :: "ref \<Rightarrow> document"
  next_ref :: ref

definition init_world :: world where
  "init_world =
     \<lparr>attributes = (\<lambda>_. \<lparr>attr_uid = [], attr_label = [], attr_value = PNone, attr_metadata = []\<rparr>),
      keysets = (\<lambda>_. {}),
      annotations = (\<lambda>_. \<lparr>ann_uid = [], ann_label = [], ann_keys = 0, ann_metadata = [],
                           attrs_by_id = [], attr_ids_by_label = Map.empty\<rparr>),
      stores = (\<lambda>_. Map.empty),
      documents = (\<lambda>_. \<lparr>doc_id = [], store = 0, has_shared_store = False, annotation_ids = {},
                         annotation_ids_by_label = Map.empty, annotation_ids_by_key = Map.empty,
                         doc_metadata = []\<rparr>),
      next_ref = 0\<rparr>"

text \<open>
  Iterating a Python \<open>set\<close> visits every element once, in an order the language does not
  fix. The functions that iterate a set take the iteration as a parameter \<open>iter\<close>;
  \<open>enumerates iter S\<close> says that \<open>iter\<close> is an iteration of \<open>S\<close>.
\<close>

definition enumerates :: "(string set \<Rightarrow> string list) \<Rightarrow> string set \<Rightarrow> bool" where
  "enumerates iter S \<longleftrightarrow> set (iter S) = S \<and> distinct (iter S)"

text \<open>
  The idiom
  \<^verbatim>\<open>if k not in d: d[k] = []\<close> followed by \<^verbatim>\<open>d[k].append(v)\<close>.
\<close>

definition bucket_append :: "(string \<rightharpoonup> string list) \<Rightarrow> string \<Rightarrow> string \<Rightarrow> (string \<rightharpoonup> string list)" where
  "bucket_append d k v = (case d k of None \<Rightarrow> d(k \<mapsto> [v]) | Some xs \<Rightarrow> d(k \<mapsto> xs @ [v]))"

section \<open>annotation.py\<close>

subsection \<open>Attribute\<close>

text \<open>
  \<open>generate_id\<close> lives in \<open>medkit.core.id\<close>; the identifier it would return is the
  parameter \<open>fresh\<close> of every constructor.
\<close>

definition Attribute_init :: "string \<Rightarrow> string \<Rightarrow> pyval \<Rightarrow> string option \<Rightarrow> pydict option \<Rightarrow> attribute" where
  "Attribute_init fresh label val uid metadata =
     (let uid = (case uid of None \<Rightarrow> fresh | Some u \<Rightarrow> u);
          metadata = (case metadata of None \<Rightarrow> [] | Some m \<Rightarrow> m)
      in \<lparr>attr_uid = uid, attr_label = label, attr_value = val, attr_metadata = metadata\<rparr>)"

definition Attribute_to_dict :: "attribute \<Rightarrow> pydict" where
  "Attribute_to_dict self =
     [(''uid'', PStr (attr_uid self)),
      (''label'', PStr (attr_label self)),
      (''value'', attr_value self),
      (''metadata'', PDict (attr_metadata self))]"

text \<open>\<open>d[k]\<close> on a dictionary raises \<open>KeyError\<close> when the key is missing.\<close>

definition getitem :: "pydict \<Rightarrow> string \<Rightarrow> error + pyval" where
  "getitem d k = (case map_of d k of None \<Rightarrow> Inl KeyError | Some v \<Rightarrow> Inr v)"

text \<open>
  The constructor's parameters are typed \<open>Optional[str]\<close>, \<open>str\<close>, \<open>Optional[Any]\<close>
  and \<open>Optional[Dict[str, Any]]\<close>. A dictionary entry of another run-time type is
  outside this typed model (Python would store it unchecked) and is reported as
  \<open>TypeMismatch\<close>.
\<close>

fun as_optional_str :: "pyval \<Rightarrow> error + string option" where
  "as_optional_str PNone = Inr None"
| "as_optional_str (PStr s) = Inr (Some s)"
| "as_optional_str _ = Inl TypeMismatch"

fun as_str :: "pyval \<Rightarrow> error + string" where
  "as_str (PStr s) = Inr s"
| "as_str _ = Inl TypeMismatch"

fun as_optional_dict :: "pyval \<Rightarrow> error + pydict option" where
  "as_optional_dict PNone = Inr None"
| "as_optional_dict (PDict d) = Inr (Some d)"
| "as_optional_dict _ = Inl TypeMismatch"

definition Attribute_from_dict :: "string \<Rightarrow> pydict \<Rightarrow> error + attribute" where
  "Attribute_from_dict fresh attribute_dict =
     (case getitem attribute_dict ''uid'' of Inl e \<Rightarrow> Inl e | Inr uid \<Rightarrow>
      case getitem attribute_dict ''label'' of Inl e \<Rightarrow> Inl e | Inr label \<Rightarrow>
      case getitem attribute_dict ''value'' of Inl e \<Rightarrow> Inl e | Inr val \<Rightarrow>
      case getitem attribute_dict ''metadata'' of Inl e \<Rightarrow> Inl e | Inr metadata \<Rightarrow>
      case as_optional_str uid of Inl e \<Rightarrow> Inl e | Inr uid \<Rightarrow>
      case as_str label of Inl e \<Rightarrow> Inl e | Inr label \<Rightarrow>
      case as_optional_dict metadata of Inl e \<Rightarrow> Inl e | Inr metadata \<Rightarrow>
        Inr (Attribute_init fresh label val uid metadata))"

text \<open>Allocation of an Attribute object built by the constructor.\<close>

definition new_attribute :: "attribute \<Rightarrow> world \<Rightarrow> ref \<times> world" where
  "new_attribute a w =
     (next_ref w, w\<lparr>attributes := (attributes w)(next_ref w := a), next_ref := Suc (next_ref w)\<rparr>)"

text \<open>Allocation of a set object, as the literal \<open>set()\<close> or \<open>{...}\<close> does.\<close>

definition new_set :: "string set \<Rightarrow> world \<Rightarrow> ref \<times> world" where
  "new_set S w =
     (next_ref w, w\<lparr>keysets := (keysets w)(next_ref w := S), next_ref := Suc (next_ref w)\<rparr>)"

subsection \<open>Annotation\<close>

definition add_attr :: "ref \<Rightarrow> ref \<Rightarrow> world \<Rightarrow> (error + unit) \<times> world" where
  "add_attr self attr w =
     (let a = annotations w self;
          uid = attr_uid (attributes w attr)
      in if map_of (attrs_by_id a) uid \<noteq> None then (Inl ValueError, w)
         else
           let a = a\<lparr>attrs_by_id := AList.update uid attr (attrs_by_id a)\<rparr>;
               label = attr_label (attributes w attr);
               a = a\<lparr>attr_ids_by_label := bucket_append (attr_ids_by_label a) label uid\<rparr>
           in (Inr (), w\<lparr>annotations := (annotations w)(self := a)\<rparr>))"

text \<open>The loop \<^verbatim>\<open>for attr in attrs: self.add_attr(attr)\<close>; an exception leaves it.\<close>

fun add_attrs :: "ref \<Rightarrow> ref list \<Rightarrow> world \<Rightarrow> (error + unit) \<times> world" where
  "add_attrs self [] w = (Inr (), w)"
| "add_attrs self (attr # attrs) w =
     (case add_attr self attr w of
        (Inl e, w') \<Rightarrow> (Inl e, w')
      | (Inr _, w') \<Rightarrow> add_attrs self attrs w')"

text \<open>
  \<open>Annotation.__init__\<close>. The object is allocated first; \<open>keys\<close> is the caller's set
  object when one is given and a new empty set otherwise.
\<close>

definition Annotation_init ::
  "string \<Rightarrow> string \<Rightarrow> ref option \<Rightarrow> ref list option \<Rightarrow> string option \<Rightarrow> pydict option
     \<Rightarrow> world \<Rightarrow> (error + ref) \<times> world" where
  "Annotation_init fresh label keys attrs uid metadata w =
     (let self = next_ref w;
          w = w\<lparr>next_ref := Suc self\<rparr>;
          uid = (case uid of None \<Rightarrow> fresh | Some u \<Rightarrow> u);
          attrs = (case attrs of None \<Rightarrow> [] | Some xs \<Rightarrow> xs);
          metadata = (case metadata of None \<Rightarrow> [] | Some m \<Rightarrow> m);
          (keys, w) = (case keys of Some k \<Rightarrow> (k, w) | None \<Rightarrow> new_set {} w);
          w = w\<lparr>annotations := (annotations w)(self :=
                 \<lparr>ann_uid = uid, ann_label = label, ann_keys = keys, ann_metadata = metadata,
                  attrs_by_id = [], attr_ids_by_label = Map.empty\<rparr>)\<rparr>
      in case add_attrs self attrs w of
           (Inl e, w') \<Rightarrow> (Inl e, w')
         | (Inr _, w') \<Rightarrow> (Inr self, w'))"

definition get_attrs :: "ref \<Rightarrow> world \<Rightarrow> ref list" where
  "get_attrs self w = map snd (attrs_by_id (annotations w self))"

definition add_key :: "ref \<Rightarrow> string \<Rightarrow> world \<Rightarrow> world" where
  "add_key self key w =
     (let ks = ann_keys (annotations w self)
      in w\<lparr>keysets := (keysets w)(ks := insert key (keysets w ks))\<rparr>)"

definition keep_keys :: "ref \<Rightarrow> string set \<Rightarrow> world \<Rightarrow> world" where
  "keep_keys self keys w =
     (let ks = ann_keys (annotations w self)
      in w\<lparr>keysets := (keysets w)(ks := keysets w ks \<inter> keys)\<rparr>)"

section \<open>store.py\<close>

text \<open>
  Modelled from the spec: the module \<open>medkit.core.store\<close> (\<open>Store\<close>, \<open>DictStore\<close>) is
  not among the sources. Section 4.2 of the specification: \<open>store_data_item(item)\<close>
  inserts the item under its own uid and fails with DuplicateKey if the uid is already
  present with a different object, re-inserting the identical object being idempotent;
  \<open>get_data_item(uid)\<close> is a pure lookup whose absent result is a normal outcome.
  A Store object maps a uid to the address of the stored item.
\<close>

definition DictStore_init :: "world \<Rightarrow> ref \<times> world" where
  "DictStore_init w =
     (next_ref w, w\<lparr>stores := (stores w)(next_ref w := Map.empty), next_ref := Suc (next_ref w)\<rparr>)"

definition store_data_item :: "ref \<Rightarrow> ref \<Rightarrow> world \<Rightarrow> (error + unit) \<times> world" where
  "store_data_item self item w =
     (let uid = ann_uid (annotations w item)
      in case stores w self uid of
           None \<Rightarrow> (Inr (), w\<lparr>stores := (stores w)(self := (stores w self)(uid \<mapsto> item))\<rparr>)
         | Some other \<Rightarrow> if other = item then (Inr (), w) else (Inl DuplicateKey, w))"

definition get_data_item :: "ref \<Rightarrow> string \<Rightarrow> world \<Rightarrow> ref option" where
  "get_data_item self uid w = stores w self uid"

section \<open>document.py\<close>

definition Document_init :: "string \<Rightarrow> string option \<Rightarrow> pydict option \<Rightarrow> ref option \<Rightarrow> world \<Rightarrow> ref \<times> world" where
  "Document_init fresh given_id metadata given_store w =
     (let self = next_ref w;
          w = w\<lparr>next_ref := Suc self\<rparr>;
          doc_id = (case given_id of None \<Rightarrow> fresh | Some i \<Rightarrow> i);
          metadata = (case metadata of None \<Rightarrow> [] | Some m \<Rightarrow> m);
          (store, has_shared_store, w) =
             (case given_store of
                None \<Rightarrow> (let (s, w) = DictStore_init w in (s, False, w))
              | Some s \<Rightarrow> (s, True, w))
      in (self, w\<lparr>documents := (documents w)(self :=
                   \<lparr>doc_id = doc_id, store = store, has_shared_store = has_shared_store,
                    annotation_ids = {}, annotation_ids_by_label = Map.empty,
                    annotation_ids_by_key = Map.empty, doc_metadata = metadata\<rparr>)\<rparr>))"

text \<open>
  \<open>Document.add_annotation\<close>. The method reads the annotation's identifier as
  \<open>annotation.id\<close>; \<open>annotation.py\<close> names that field \<open>uid\<close>. The loop over
  \<open>annotation.keys\<close> iterates a set.
\<close>

definition add_annotation :: "(string set \<Rightarrow> string list) \<Rightarrow> ref \<Rightarrow> ref \<Rightarrow> world \<Rightarrow> (error + unit) \<times> world" where
  "add_annotation iter self annotation w =
     (let id = ann_uid (annotations w annotation);
          d = documents w self
      in if id \<in> annotation_ids d then (Inl ValueError, w)
         else
           let w = w\<lparr>documents := (documents w)(self := d\<lparr>annotation_ids := insert id (annotation_ids d)\<rparr>)\<rparr>
           in case store_data_item (store (documents w self)) annotation w of
                (Inl e, w) \<Rightarrow> (Inl e, w)
              | (Inr _, w) \<Rightarrow>
                  let d = documents w self;
                      label = ann_label (annotations w annotation);
                      d = d\<lparr>annotation_ids_by_label := bucket_append (annotation_ids_by_label d) label id\<rparr>;
                      keys = iter (keysets w (ann_keys (annotations w annotation)));
                      d = d\<lparr>annotation_ids_by_key :=
                              fold (\<lambda>key by_key. bucket_append by_key key id) keys (annotation_ids_by_key d)\<rparr>
                  in (Inr (), w\<lparr>documents := (documents w)(self := d)\<rparr>))"

definition get_annotation_by_id :: "ref \<Rightarrow> string \<Rightarrow> world \<Rightarrow> ref option" where
  "get_annotation_by_id self annotation_id w =
     (let d = documents w self
      in if annotation_id \<notin> annotation_ids d then None
         else get_data_item (store d) annotation_id w)"

definition get_annotations :: "(string set \<Rightarrow> string list) \<Rightarrow> ref \<Rightarrow> world \<Rightarrow> ref option list" where
  "get_annotations iter self w =
     (let d = documents w self
      in map (\<lambda>id. get_data_item (store d) id w) (iter (annotation_ids d)))"

text \<open>\<open>d.get(k, [])\<close> on a dictionary of lists.\<close>

definition get_or_empty :: "(string \<rightharpoonup> string list) \<Rightarrow> string \<Rightarrow> string list" where
  "get_or_empty d k = (case d k of None \<Rightarrow> [] | Some xs \<Rightarrow> xs)"

definition get_annotations_by_key :: "ref \<Rightarrow> string \<Rightarrow> world \<Rightarrow> ref option list" where
  "get_annotations_by_key self key w =
     (let d = documents w self
      in map (\<lambda>id. get_data_item (store d) id w) (get_or_empty (annotation_ids_by_key d) key))"

definition get_annotations_by_label :: "ref \<Rightarrow> string \<Rightarrow> world \<Rightarrow> ref option list" where
  "get_annotations_by_label self label w =
     (let d = documents w self
      in map (\<lambda>id. get_data_item (store d) id w) (get_or_empty (annotation_ids_by_label d) label))"

section \<open>Notions used in the statements and proofs\<close>

text \<open>The uids of a list of Attribute objects, as \<open>add_attr\<close> reads them.\<close>

definition uids_of :: "world \<Rightarrow> ref list \<Rightarrow> string list" where
  "uids_of w attrs = map (\<lambda>x. attr_uid (attributes w x)) attrs"

text \<open>
  The attributes \<open>attrs\<close> can all be attached to \<open>self\<close>: their uids are pairwise
  distinct and none is attached yet.
\<close>

definition attachable :: "world \<Rightarrow> ref \<Rightarrow> ref list \<Rightarrow> bool" where
  "attachable w self attrs \<longleftrightarrow>
     distinct (uids_of w attrs)
     \<and> (\<forall>u \<in> set (uids_of w attrs). map_of (attrs_by_id (annotations w self)) u = None)"

text \<open>
  Example objects: three Attributes at addresses 0, 1 and 2, the first two with the same
  uid, and an Annotation without attributes at address 3 (its key set at address 4).
\<close>

definition example_attributes :: world where
  "example_attributes =
     snd (new_attribute (Attribute_init ''g3'' ''is_negated'' (PBool True) (Some ''u2'') None)
       (snd (new_attribute (Attribute_init ''g2'' ''is_family'' (PBool True) (Some ''u1'') None)
         (snd (new_attribute (Attribute_init ''g1'' ''is_family'' (PBool False) (Some ''u1'') None)
            init_world)))))"

definition example_annotation :: world where
  "example_annotation =
     snd (Annotation_init ''g4'' ''sentence'' None None None None example_attributes)"

section \<open>Theorems\<close>

subsection \<open>Attribute serialisation\<close>

lemma Attribute_from_dict_to_dict: "Attribute_from_dict fresh (Attribute_to_dict x) = Inr x"
  by (simp add: Attribute_from_dict_def Attribute_to_dict_def getitem_def Attribute_init_def)

text \<open>
  C7. For every Attribute \<open>x\<close>, \<open>Attribute.from_dict(x.to_dict())\<close> returns an Attribute
  whose \<open>to_dict()\<close> is the dictionary \<open>x.to_dict()\<close>: the same uid, label, value and
  metadata entries.
\<close>

theorem Attribute_round_trip:
  "\<exists>y. Attribute_from_dict fresh (Attribute_to_dict x) = Inr y
       \<and> Attribute_to_dict y = Attribute_to_dict x"
  by (simp add: Attribute_from_dict_to_dict)

subsection \<open>Attaching attributes\<close>

lemma update_fresh:
  "map_of al k = None \<Longrightarrow> AList.update k v al = al @ [(k, v)]"
  by (induction al) (auto split: if_splits)

lemma add_attr_attributes: "attributes (snd (add_attr self attr w)) = attributes w"
  by (simp add: add_attr_def Let_def)

lemma add_attr_fails:
  "map_of (attrs_by_id (annotations w self)) (attr_uid (attributes w attr)) \<noteq> None
   \<Longrightarrow> add_attr self attr w = (Inl ValueError, w)"
  by (simp add: add_attr_def Let_def)

lemma add_attr_succeeds:
  assumes "map_of (attrs_by_id (annotations w self)) (attr_uid (attributes w attr)) = None"
  shows "\<exists>w'. add_attr self attr w = (Inr (), w')
           \<and> attributes w' = attributes w
           \<and> attrs_by_id (annotations w' self)
               = attrs_by_id (annotations w self) @ [(attr_uid (attributes w attr), attr)]"
  using assms by (simp add: add_attr_def Let_def update_fresh)

text \<open>
  C4. When \<open>add_attr(attr)\<close> has succeeded on an Annotation, a second \<open>add_attr\<close> with an
  Attribute of the same uid (the same object or another one) fails with the
  duplicate-attribute error and leaves the whole state as it was, so \<open>get_attrs()\<close>
  returns the same list before and after the failed call. More generally the call
  fails, changing nothing, whenever the uid is already attached. No call of
  \<open>add_attr\<close>, failed or not, changes any Attribute object.
\<close>

theorem add_attr_duplicate_uid:
  "(fst (add_attr self attr w) = Inr ()
     \<and> attr_uid (attributes w attr') = attr_uid (attributes w attr)
    \<longrightarrow> (let w1 = snd (add_attr self attr w) in
          add_attr self attr' w1 = (Inl ValueError, w1)
          \<and> get_attrs self (snd (add_attr self attr' w1)) = get_attrs self w1))
   \<and> (map_of (attrs_by_id (annotations w self)) (attr_uid (attributes w attr)) \<noteq> None
      \<longrightarrow> add_attr self attr w = (Inl ValueError, w))
   \<and> attributes (snd (add_attr self attr w)) = attributes w"
  by (auto simp add: add_attr_def Let_def update_fresh map_of_eq_None_iff image_iff)

theorem add_attr_duplicate_uid_witness:
  "fst (add_attr 3 0 example_annotation) = Inr ()
   \<and> attr_uid (attributes example_annotation (Suc 0)) = attr_uid (attributes example_annotation 0)
   \<and> add_attr 3 (Suc 0) (snd (add_attr 3 0 example_annotation))
       = (Inl ValueError, snd (add_attr 3 0 example_annotation))
   \<and> get_attrs 3 (snd (add_attr 3 0 example_annotation)) = [0]"
  using add_attr_duplicate_uid [of 3 0 example_annotation "Suc 0"]
  by (simp add: example_attributes_def example_annotation_def new_attribute_def
        Attribute_init_def init_world_def Annotation_init_def new_set_def Let_def
        add_attr_def get_attrs_def eval_nat_numeral)

subsection \<open>The constructor of Annotation\<close>

lemma uids_of_Cons: "uids_of w (x # xs) = attr_uid (attributes w x) # uids_of w xs"
  by (simp add: uids_of_def)

lemma uids_of_cong: "attributes w1 = attributes w \<Longrightarrow> uids_of w1 xs = uids_of w xs"
  by (simp add: uids_of_def)

lemma attachable_Cons:
  assumes al: "attrs_by_id (annotations w1 self) = attrs_by_id (annotations w self) @ [(attr_uid (attributes w x), x)]"
    and same: "attributes w1 = attributes w"
    and free: "map_of (attrs_by_id (annotations w self)) (attr_uid (attributes w x)) = None"
  shows "attachable w self (x # xs) \<longleftrightarrow> attachable w1 self xs"
proof -
  have u: "uids_of w1 xs = uids_of w xs" using same by (rule uids_of_cong)
  have m: "\<And>u. map_of (attrs_by_id (annotations w1 self)) u = None
             \<longleftrightarrow> u \<noteq> attr_uid (attributes w x) \<and> map_of (attrs_by_id (annotations w self)) u = None"
    using free by (auto simp: al map_add_def split: option.splits)
  show ?thesis
    unfolding attachable_def uids_of_Cons u using free by (auto simp: m)
qed

lemma add_attrs_succeeds:
  "attachable w self attrs
   \<Longrightarrow> \<exists>w'. add_attrs self attrs w = (Inr (), w')
         \<and> attrs_by_id (annotations w' self)
             = attrs_by_id (annotations w self) @ map (\<lambda>x. (attr_uid (attributes w x), x)) attrs"
proof (induction attrs arbitrary: w)
  case Nil
  show ?case by simp
next
  case (Cons x xs)
  let ?u = "attr_uid (attributes w x)"
  have free: "map_of (attrs_by_id (annotations w self)) ?u = None"
    using Cons.prems by (simp add: attachable_def uids_of_Cons)
  then obtain w1 where step: "add_attr self x w = (Inr (), w1)"
      and same: "attributes w1 = attributes w"
      and al: "attrs_by_id (annotations w1 self) = attrs_by_id (annotations w self) @ [(?u, x)]"
    using add_attr_succeeds by blast
  have "attachable w1 self xs"
    using attachable_Cons [OF al same free] Cons.prems by simp
  from Cons.IH [OF this] obtain w' where
    rest: "add_attrs self xs w1 = (Inr (), w')" and
    al': "attrs_by_id (annotations w' self)
            = attrs_by_id (annotations w1 self) @ map (\<lambda>x. (attr_uid (attributes w1 x), x)) xs"
    by blast
  show ?case using step rest al al' same by simp
qed

lemma add_attrs_fails:
  "\<not> attachable w self attrs \<Longrightarrow> fst (add_attrs self attrs w) = Inl ValueError"
proof (induction attrs arbitrary: w)
  case Nil
  then show ?case by (simp add: attachable_def uids_of_def)
next
  case (Cons x xs)
  let ?u = "attr_uid (attributes w x)"
  show ?case
  proof (cases "map_of (attrs_by_id (annotations w self)) ?u = None")
    case False
    then show ?thesis using add_attr_fails [of w self x] by simp
  next
    case True
    then obtain w1 where step: "add_attr self x w = (Inr (), w1)"
      and same: "attributes w1 = attributes w"
      and al: "attrs_by_id (annotations w1 self) = attrs_by_id (annotations w self) @ [(?u, x)]"
      using add_attr_succeeds by blast
    have "\<not> attachable w1 self xs"
      using attachable_Cons [OF al same True] Cons.prems by simp
    from Cons.IH [OF this] show ?thesis using step by simp
  qed
qed

lemma Annotation_init_unfold:
  "\<exists>w0. Annotation_init fresh label keys (Some attrs) uid metadata w
        = (case add_attrs (next_ref w) attrs w0 of
             (Inl e, w') \<Rightarrow> (Inl e, w') | (Inr _, w') \<Rightarrow> (Inr (next_ref w), w'))
     \<and> attributes w0 = attributes w \<and> attrs_by_id (annotations w0 (next_ref w)) = []"
proof (cases keys)
  case None
  show ?thesis
    unfolding Annotation_init_def Let_def new_set_def None
    apply simp
    apply (rule exI, rule conjI, rule refl)
    apply simp
    done
next
  case (Some k)
  show ?thesis
    unfolding Annotation_init_def Let_def new_set_def Some
    apply simp
    apply (rule exI, rule conjI, rule refl)
    apply simp
    done
qed

text \<open>
  C10. The constructor of Annotation attaches the attributes of its \<open>attrs\<close> list with
  \<open>add_attr\<close>, in list order: when two entries of the list have the same uid it raises
  the duplicate-attribute error; when the uids are pairwise distinct it returns the new
  Annotation, and \<open>get_attrs()\<close> on it is the list \<open>attrs\<close>, in the same order.
\<close>

theorem Annotation_init_attrs:
  "(\<not> distinct (map (\<lambda>x. attr_uid (attributes w x)) attrs)
      \<longrightarrow> fst (Annotation_init fresh label keys (Some attrs) uid metadata w) = Inl ValueError)
   \<and> (distinct (map (\<lambda>x. attr_uid (attributes w x)) attrs)
      \<longrightarrow> (\<exists>self w'. Annotation_init fresh label keys (Some attrs) uid metadata w = (Inr self, w')
                    \<and> get_attrs self w' = attrs))"
proof -
  obtain w0 where unf: "Annotation_init fresh label keys (Some attrs) uid metadata w
        = (case add_attrs (next_ref w) attrs w0 of
             (Inl e, w') \<Rightarrow> (Inl e, w') | (Inr _, w') \<Rightarrow> (Inr (next_ref w), w'))"
    and at: "attributes w0 = attributes w"
    and emp: "attrs_by_id (annotations w0 (next_ref w)) = []"
    using Annotation_init_unfold by blast
  have att: "attachable w0 (next_ref w) attrs
               \<longleftrightarrow> distinct (map (\<lambda>x. attr_uid (attributes w x)) attrs)"
    by (simp add: attachable_def uids_of_def at emp)
  show ?thesis
  proof (intro conjI impI)
    assume "\<not> distinct (map (\<lambda>x. attr_uid (attributes w x)) attrs)"
    then have "fst (add_attrs (next_ref w) attrs w0) = Inl ValueError"
      using add_attrs_fails att by blast
    then show "fst (Annotation_init fresh label keys (Some attrs) uid metadata w) = Inl ValueError"
      unfolding unf by (cases "add_attrs (next_ref w) attrs w0") auto
  next
    assume "distinct (map (\<lambda>x. attr_uid (attributes w x)) attrs)"
    then have "attachable w0 (next_ref w) attrs" using att by blast
    from add_attrs_succeeds [OF this] obtain w' where
      ok: "add_attrs (next_ref w) attrs w0 = (Inr (), w')" and
      al: "attrs_by_id (annotations w' (next_ref w))
             = attrs_by_id (annotations w0 (next_ref w)) @ map (\<lambda>x. (attr_uid (attributes w0 x), x)) attrs"
      by blast
    have "get_attrs (next_ref w) w' = attrs"
      by (simp add: get_attrs_def al emp comp_def)
    then show "\<exists>self w'. Annotation_init fresh label keys (Some attrs) uid metadata w = (Inr self, w')
                    \<and> get_attrs self w' = attrs"
      using ok unf by simp
  qed
qed

theorem Annotation_init_attrs_witness:
  "fst (Annotation_init ''g4'' ''sentence'' None (Some [0, Suc 0]) None None example_attributes)
     = Inl ValueError
   \<and> (\<exists>self w'. Annotation_init ''g4'' ''sentence'' None (Some [0, Suc (Suc 0)]) None None
                   example_attributes = (Inr self, w')
          \<and> get_attrs self w' = [0, Suc (Suc 0)])"
  using Annotation_init_attrs [of example_attributes "[0, Suc 0]" "''g4''" "''sentence''" None None None]
        Annotation_init_attrs [of example_attributes "[0, Suc (Suc 0)]" "''g4''" "''sentence''" None None None]
  by (simp add: example_attributes_def new_attribute_def Attribute_init_def init_world_def)


end
